theory Spec2Isabelle
  imports Complex_Main "HOL-Library.AList" "HOL-Library.Sublist"
begin

section \<open>Data model (app/models.py, app/queue.py)\<close>

text \<open>
  \<^verbatim>\<open>class JobStatus(str, Enum)\<close> of app/models.py. The constructors are capitalised
  because \<open>done\<close> is a keyword of the proof language.
\<close>

datatype job_status = Queued | Running | Done | Failed | Cleaned

text \<open>
  Exceptions as values. \<open>exn\<close> stands for instances of Python's \<open>Exception\<close>, the class
  that every \<open>except Exception\<close> of the source catches: \<open>RuntimeError\<close> is what the
  converter and the retry loop raise themselves, \<open>ProcessLookupError\<close> is the one class
  the converter suppresses around its signalling calls, and \<open>OtherError cls msg\<close> is any
  other exception, with its class name and its \<open>str()\<close>. Signals that derive from
  \<open>BaseException\<close> only (task cancellation, interpreter exit) are not exceptions in this
  sense and are outside the model. All instances are truthy, as Python's built-in
  exceptions are.
\<close>

datatype exn = RuntimeError string | ProcessLookupError string | OtherError string string

fun str_exn :: "exn \<Rightarrow> string" where
  "str_exn (RuntimeError m) = m"
| "str_exn (ProcessLookupError m) = m"
| "str_exn (OtherError c m) = m"

text \<open>
  The event-loop clock (\<open>asyncio.get_event_loop().time()\<close>) returns a float; the model
  reads it as a real number, so rounding is outside the model. Every function that reads
  the clock takes the value read as the argument \<open>now\<close>.
\<close>

type_synonym time = real

text \<open>
  \<^verbatim>\<open>@dataclass class Job\<close> of app/queue.py. The field \<open>id\<close> is called \<open>job_id\<close> here
  (\<open>id\<close> is the identity function of HOL).
\<close>

record job =
  job_id :: string
  infile_path :: string
  outdir :: string
  convert_to :: "string option"
  status :: job_status
  message :: "string option"
  outfile_path :: "string option"
  retries :: int
  max_retries :: int
  finished_at :: "time option"

text \<open>
  \<^verbatim>\<open>class ConvertQueue\<close>: \<open>sem\<close> is the number of free slots of the semaphore, \<open>jobs\<close>
  the registry (a Python dict: insertion-ordered, keys unique, here an association list),
  \<open>pending\<close> the list of queued ids.
\<close>

record convert_queue =
  sem :: nat
  jobs :: "(string \<times> job) list"
  pending :: "string list"

definition get :: "convert_queue \<Rightarrow> string \<Rightarrow> job option" where
  "get q jid = map_of (jobs q) jid"

text \<open>
  The registry holds the \<open>Job\<close> object itself, under the object's id. A method that
  receives the object (\<open>enqueue\<close>, \<open>run_job\<close>, \<open>_attempt_with_retries\<close>) takes the
  object's state and returns its new state, and \<open>store\<close> makes a write to the object
  show in the registry: it puts the state under the object's id if the registry has that
  id (an evicted job is still an object, but no longer in the registry). A method that
  receives an id (\<open>cleanup_job\<close>) reads and writes the state in the registry. The state
  passed for a registered object is the one the registry holds.
\<close>

definition store :: "job \<Rightarrow> convert_queue \<Rightarrow> convert_queue" where
  "store job q =
     (case map_of (jobs q) (job_id job) of
        None \<Rightarrow> q
      | Some old \<Rightarrow> q\<lparr>jobs := AList.update (job_id job) job (jobs q)\<rparr>)"

text \<open>\<open>os.path.join\<close> of posixpath, for two components.\<close>

definition path_join :: "string \<Rightarrow> string \<Rightarrow> string" where
  "path_join a b =
     (if prefix ''/'' b then b
      else if a = [] \<or> suffix ''/'' a then a @ b
      else a @ ''/'' @ b)"

text \<open>
  \<open>create_job\<close>: the identifier (\<open>uuid.uuid4()\<close>) and the configuration constants
  \<open>DATA_DIR\<close> and \<open>MAX_RETRIES\<close> are arguments. The creation of the workspace
  directory is a file-system effect and not part of the state.
\<close>

definition create_job ::
  "string \<Rightarrow> int \<Rightarrow> string \<Rightarrow> string \<Rightarrow> string option \<Rightarrow> convert_queue \<Rightarrow> job \<times> convert_queue" where
  "create_job data_dir cfg_max_retries new_id infile cto q =
     (let job = \<lparr> job_id = new_id, infile_path = infile, outdir = path_join data_dir new_id,
                   convert_to = cto, status = Queued, message = None, outfile_path = None,
                   retries = 0, max_retries = cfg_max_retries, finished_at = None \<rparr>
      in (job, q\<lparr>jobs := AList.update new_id job (jobs q)\<rparr>))"

subsection \<open>Admission queue\<close>

text \<open>
  \<open>enqueue\<close>, with \<open>MAX_QUEUE_SIZE\<close> as an argument. \<open>if MAX_QUEUE_SIZE and ...\<close> tests
  the integer for being non-zero.
\<close>

definition enqueue :: "int \<Rightarrow> job \<Rightarrow> convert_queue \<Rightarrow> job \<times> convert_queue" where
  "enqueue max_queue_size job q =
     (if max_queue_size \<noteq> 0 \<and> int (length (pending q)) \<ge> max_queue_size
      then (let job1 = job\<lparr>status := Failed, message := Some ''Queue is full''\<rparr>
            in (job1, store job1 q))
      else if job_id job \<notin> set (pending q)
      then (let job1 = job\<lparr>status := Queued\<rparr>
            in (job1, store job1 (q\<lparr>pending := pending q @ [job_id job]\<rparr>)))
      else (job, q))"

subsection \<open>Retry controller\<close>

text \<open>
  A runner is called with the job and returns an output path or raises; what it does
  depends on the world outside (file system, external process), which is the state
  \<open>'w\<close> it threads. It reads the job and does not write it (\<open>runner\<close> of app/main.py
  reads three fields).
\<close>

type_synonym 'w runner = "'w \<Rightarrow> job \<Rightarrow> (exn + string) \<times> 'w"

text \<open>
  One entry of the attempt log: the value of \<open>job.retries\<close> with which the runner was
  called, and what the runner did in that attempt. The log is what an observer of the
  loop sees; the loop itself does not read it.
\<close>

type_synonym attempt = "int \<times> (exn + string)"

text \<open>
  The \<open>for attempt in range(...)\<close> loop of \<open>_attempt_with_retries\<close>, over the indices that
  remain. \<open>last_err\<close> is the local variable of that name. The cooldown
  \<open>asyncio.sleep(0.2)\<close> changes no state.
\<close>

fun attempt_loop ::
  "'w runner \<Rightarrow> int list \<Rightarrow> exn option \<Rightarrow> job \<Rightarrow> 'w \<Rightarrow> (exn + string) \<times> job \<times> 'w \<times> attempt list" where
  "attempt_loop runner [] last_err job w =
     (Inl (case last_err of Some e \<Rightarrow> e | None \<Rightarrow> RuntimeError ''Unknown conversion failure''),
      job, w, [])"
| "attempt_loop runner (attempt # rest) last_err job w =
     (let job1 = job\<lparr>retries := attempt\<rparr> in
      case runner w job1 of
        (Inr path, w1) \<Rightarrow> (Inr path, job1, w1, [(retries job1, Inr path)])
      | (Inl e, w1) \<Rightarrow>
          (case attempt_loop runner rest (Some e) job1 w1 of
             (res, job2, w2, tr) \<Rightarrow> (res, job2, w2, (retries job1, Inl e) # tr)))"

text \<open>\<open>range(n)\<close> as the list of its values.\<close>

definition py_range :: "int \<Rightarrow> int list" where
  "py_range n = [0..n - 1]"

definition attempt_with_retries ::
  "'w runner \<Rightarrow> job \<Rightarrow> 'w \<Rightarrow> (exn + string) \<times> job \<times> 'w \<times> attempt list" where
  "attempt_with_retries runner job w =
     attempt_loop runner (py_range (max_retries job + 1)) None job w"

subsection \<open>Scheduler loop\<close>

text \<open>
  \<open>run_job\<close>. \<open>async with self.sem\<close> waits until a slot is free; in this sequential
  model no other task can free one, so a gate without a free slot is the result \<open>None\<close>
  (the call does not return). \<open>run_job_enter\<close> is the part up to \<open>job.status = running\<close>,
  executed while the slot is held; \<open>run_job_exit\<close> is the \<open>try\<close>/\<open>except\<close> around the
  retry controller followed by the release of the slot. The first component of the result
  is the exception the call propagates to its caller, if any.
\<close>

definition run_job_enter :: "job \<Rightarrow> convert_queue \<Rightarrow> job \<times> convert_queue" where
  "run_job_enter job q =
     (let job1 = job\<lparr>status := Running\<rparr>
      in (job1,
          store job1
            (q\<lparr>sem := sem q - 1,
               pending := (if job_id job \<in> set (pending q)
                           then remove1 (job_id job) (pending q)
                           else pending q)\<rparr>)))"

definition run_job_exit :: "time \<Rightarrow> exn + string \<Rightarrow> job \<Rightarrow> convert_queue \<Rightarrow> job \<times> convert_queue" where
  "run_job_exit now res job q =
     (let job1 =
        (case res of
           Inr path \<Rightarrow>
             job\<lparr>outfile_path := Some path, status := Done, finished_at := Some now\<rparr>
         | Inl e \<Rightarrow>
             job\<lparr>status := Failed, message := Some (str_exn e), finished_at := Some now\<rparr>)
      in (job1, store job1 (q\<lparr>sem := sem q + 1\<rparr>)))"

definition run_job ::
  "'w runner \<Rightarrow> time \<Rightarrow> job \<Rightarrow> convert_queue \<Rightarrow> 'w \<Rightarrow> (exn option \<times> job \<times> convert_queue \<times> 'w) option" where
  "run_job runner now job q w =
     (if sem q = 0 then None
      else
        (case run_job_enter job q of (job1, q1) \<Rightarrow>
         case attempt_with_retries runner job1 w of (res, job2, w2, tr) \<Rightarrow>
         case run_job_exit now res job2 q1 of (job3, q3) \<Rightarrow>
           Some (None, job3, q3, w2)))"

subsection \<open>Status counters\<close>

text \<open>
  The dictionary that \<open>counters()\<close> returns, as a record (the key \<open>done\<close> is a keyword
  here, so the fields carry the prefix \<open>c_\<close>).
\<close>

record counters_result =
  c_total :: nat
  c_queue_len :: nat
  c_running :: nat
  c_done :: nat
  c_failed :: nat

definition counters :: "convert_queue \<Rightarrow> counters_result" where
  "counters q =
     \<lparr> c_total = length (jobs q),
       c_queue_len = length (filter (\<lambda>j. status j = Queued) (map snd (jobs q))),
       c_running = length (filter (\<lambda>j. status j = Running) (map snd (jobs q))),
       c_done = length (filter (\<lambda>j. status j = Done) (map snd (jobs q))),
       c_failed = length (filter (\<lambda>j. status j = Failed) (map snd (jobs q))) \<rparr>"

subsection \<open>Workspace reclamation and eviction\<close>

text \<open>
  \<open>cleanup_job\<close>. \<open>job.finished_at or now\<close> keeps the old value unless it is \<open>None\<close> or
  the float \<open>0.0\<close> (both falsy). The removal of the workspace directory is a file-system
  effect; \<open>shutil.rmtree(..., ignore_errors=True)\<close> does not raise.
\<close>

definition cleanup_job :: "time \<Rightarrow> string \<Rightarrow> convert_queue \<Rightarrow> convert_queue" where
  "cleanup_job now jid q =
     (case map_of (jobs q) jid of
        None \<Rightarrow> q
      | Some job \<Rightarrow>
          (let job1 = job\<lparr>outfile_path := None, status := Cleaned,
                          message := Some ''Cleaned up after retention period'',
                          finished_at := Some (case finished_at job of
                                                 None \<Rightarrow> now
                                               | Some t \<Rightarrow> if t \<noteq> 0 then t else now)\<rparr>
           in q\<lparr>jobs := AList.update jid job1 (jobs q),
                pending := (if jid \<in> set (pending q) then remove1 jid (pending q)
                            else pending q)\<rparr>))"

text \<open>
  The test of the inner two \<open>if\<close>s of \<open>evict_old_jobs\<close>, with \<open>JOB_RECORD_TTL_SECONDS\<close>
  (an integer) as the argument \<open>ttl\<close>.
\<close>

definition expired :: "int \<Rightarrow> time \<Rightarrow> job \<Rightarrow> bool" where
  "expired ttl now job =
     (status job \<in> {Done, Failed, Cleaned} \<and>
      (case finished_at job of None \<Rightarrow> False | Some t \<Rightarrow> now - t > real_of_int ttl))"

text \<open>
  \<open>evict_old_jobs\<close>: the first loop collects the ids, the second deletes each of them
  (\<open>del self.jobs[jid]\<close>).
\<close>

definition evict_old_jobs :: "int \<Rightarrow> time \<Rightarrow> convert_queue \<Rightarrow> convert_queue" where
  "evict_old_jobs ttl now q =
     (if ttl \<le> 0 then q
      else
        (let to_delete = map fst (filter (\<lambda>(jid, job). expired ttl now job) (jobs q))
         in q\<lparr>jobs := fold AList.delete to_delete (jobs q)\<rparr>))"

section \<open>HTTP handlers (app/main.py)\<close>

datatype http_exn = HTTPException nat string

record convert_response =
  resp_job_id :: string
  resp_status :: job_status
  resp_download_url :: "string option"
  resp_message :: "string option"

text \<open>
  \<open>convert_sync\<close>. The upload is written to the file system, which is not part of the
  state. The slot is taken and released around the conversion; without a free slot the
  call does not return (\<open>None\<close>). The first component is the response, or the
  \<open>HTTPException\<close> raised.
\<close>

definition convert_sync ::
  "'w runner \<Rightarrow> string \<Rightarrow> int \<Rightarrow> string \<Rightarrow> string \<Rightarrow> string option \<Rightarrow> convert_queue \<Rightarrow> 'w
     \<Rightarrow> ((http_exn + convert_response) \<times> job \<times> convert_queue \<times> 'w) option" where
  "convert_sync runner data_dir cfg_max_retries new_id filename cto q w =
     (case create_job data_dir cfg_max_retries new_id [] cto q of (job0, q0) \<Rightarrow>
      let infile = path_join (path_join (outdir job0) ''input'') filename;
          job1 = job0\<lparr>infile_path := infile\<rparr>
      in if sem q0 = 0 then None
         else
           (let q1 = q0\<lparr>sem := sem q0 - 1\<rparr>;
                job2 = job1\<lparr>status := Running\<rparr>
            in case attempt_with_retries runner job2 w of (res, job3, w1, tr) \<Rightarrow>
               (case res of
                  Inr outfile \<Rightarrow>
                    (let job4 = job3\<lparr>outfile_path := Some outfile, status := Done\<rparr>
                     in Some (Inr \<lparr> resp_job_id = job_id job4, resp_status = status job4,
                                     resp_download_url = Some (''/download/'' @ job_id job4),
                                     resp_message = None \<rparr>,
                              job4, store job4 (q1\<lparr>sem := sem q1 + 1\<rparr>), w1))
                | Inl e \<Rightarrow>
                    (let job4 = job3\<lparr>status := Failed, message := Some (str_exn e)\<rparr>
                     in Some (Inl (HTTPException 500 (''Conversion failed: '' @ str_exn e)),
                              job4, store job4 (q1\<lparr>sem := sem q1 + 1\<rparr>), w1)))))"

text \<open>
  \<open>convert_async\<close>, up to its \<open>return\<close>. The last component lists the jobs for which the
  handler created a \<open>run_job\<close> task (\<open>asyncio.create_task(queue.run_job(job, runner))\<close>);
  the task itself runs later, as \<open>run_job\<close> above.
\<close>

definition convert_async ::
  "string \<Rightarrow> int \<Rightarrow> int \<Rightarrow> string \<Rightarrow> string \<Rightarrow> string option \<Rightarrow> convert_queue
     \<Rightarrow> convert_response \<times> job \<times> convert_queue \<times> job list" where
  "convert_async data_dir cfg_max_retries max_queue_size new_id filename cto q =
     (case create_job data_dir cfg_max_retries new_id [] cto q of (job0, q0) \<Rightarrow>
      let infile = path_join (path_join (outdir job0) ''input'') filename;
          job1 = job0\<lparr>infile_path := infile\<rparr>
      in case enqueue max_queue_size job1 (store job1 q0) of (job2, q2) \<Rightarrow>
         (\<lparr> resp_job_id = job_id job2, resp_status = status job2,
            resp_download_url = None, resp_message = None \<rparr>,
          job2, q2, [job2]))"

section \<open>Process runner (app/converter.py)\<close>

subsection \<open>Library functions on strings\<close>

text \<open>
  Strings are lists of 8-bit characters; the functions below are the ASCII behaviour of
  the Python library functions the converter calls (\<open>posixpath\<close> for paths).
\<close>

text \<open>\<open>os.path.basename\<close>: what follows the last slash.\<close>

definition basename :: "string \<Rightarrow> string" where
  "basename p = rev (takeWhile (\<lambda>c. c \<noteq> CHR ''/'') (rev p))"

text \<open>\<open>str.rfind\<close> for one character: the last index of it, or \<open>-1\<close>.\<close>

definition rfind :: "char \<Rightarrow> string \<Rightarrow> int" where
  "rfind c p =
     (if c \<in> set p then int (length p) - 1 - int (length (takeWhile (\<lambda>x. x \<noteq> c) (rev p)))
      else - 1)"

text \<open>
  The first component of \<open>os.path.splitext\<close>: the path without its extension. A dot is
  the start of an extension only if it comes after the last slash and some character
  between that slash and the dot is not a dot.
\<close>

definition splitext_root :: "string \<Rightarrow> string" where
  "splitext_root p =
     (let sepIndex = rfind CHR ''/'' p;
          dotIndex = rfind CHR ''.'' p
      in if dotIndex > sepIndex \<and>
            list_ex (\<lambda>i. p ! i \<noteq> CHR ''.'') [nat (sepIndex + 1)..<nat dotIndex]
         then take (nat dotIndex) p
         else p)"

text \<open>\<open>str.lower\<close> on ASCII letters.\<close>

definition lower_char :: "char \<Rightarrow> char" where
  "lower_char c =
     (case map_of (zip ''ABCDEFGHIJKLMNOPQRSTUVWXYZ'' ''abcdefghijklmnopqrstuvwxyz'') c of
        Some d \<Rightarrow> d
      | None \<Rightarrow> c)"

definition py_lower :: "string \<Rightarrow> string" where
  "py_lower s = map lower_char s"

text \<open>\<open>str.strip()\<close>: removes the ASCII whitespace at both ends.\<close>

definition py_isspace :: "char \<Rightarrow> bool" where
  "py_isspace c \<longleftrightarrow>
     c \<in> set [CHR 0x09, CHR 0x0A, CHR 0x0B, CHR 0x0C, CHR 0x0D,
              CHR 0x1C, CHR 0x1D, CHR 0x1E, CHR 0x1F, CHR 0x20]"

definition py_strip :: "string \<Rightarrow> string" where
  "py_strip s = rev (dropWhile py_isspace (rev (dropWhile py_isspace s)))"

text \<open>\<open>str()\<close> of an integer, as the f-string formats the return code.\<close>

fun str_nat :: "nat \<Rightarrow> string" where
  "str_nat n =
     (if n < 10 then [''0123456789'' ! n]
      else str_nat (n div 10) @ [''0123456789'' ! (n mod 10)])"

declare str_nat.simps [simp del]

definition str_int :: "int \<Rightarrow> string" where
  "str_int i = (if i < 0 then CHR ''-'' # str_nat (nat (- i)) else str_nat (nat i))"

subsection \<open>Finding the output file\<close>

text \<open>
  The loop of \<open>_find_output_pdf\<close> over the names that \<open>os.listdir(output_dir)\<close> returned,
  in the order it returned them; \<open>output_name_matches\<close> is the test of its \<open>if\<close>:
  \<open>name.startswith(base) and name.lower().endswith(".pdf")\<close>.
\<close>

definition output_name_matches :: "string \<Rightarrow> string \<Rightarrow> bool" where
  "output_name_matches base name \<longleftrightarrow> prefix base name \<and> suffix ''.pdf'' (py_lower name)"

fun find_loop :: "string \<Rightarrow> string \<Rightarrow> string list \<Rightarrow> string option" where
  "find_loop base output_dir [] = None"
| "find_loop base output_dir (name # names) =
     (if output_name_matches base name
      then Some (path_join output_dir name)
      else find_loop base output_dir names)"

definition find_output_pdf :: "string \<Rightarrow> string \<Rightarrow> string list \<Rightarrow> string option" where
  "find_output_pdf input_path output_dir listing =
     find_loop (splitext_root (basename input_path)) output_dir listing"

subsection \<open>The external process\<close>

text \<open>
  What the runner does to the world, in order: the command it starts (with the target
  \<open>convert_to or "pdf"\<close>, the output directory and the input path; the other arguments
  are constants and the profile URI), the signals it sends, the waits with their timeout
  in seconds, and the removal of the profile directory in the \<open>finally\<close> block.
\<close>

datatype signal = SIGTERM | SIGKILL

datatype action =
    Exec_soffice string string string
  | Killpg nat signal
  | Proc_terminate
  | Proc_kill
  | Wait_for nat
  | Rmtree_profile

text \<open>
  What the world answers after the deadline has elapsed: the result of
  \<open>os.getpgid(proc.pid)\<close> (an exception or the group id), whether \<open>os\<close> has \<open>killpg\<close>,
  the exception raised by the call that sends the termination signal (\<open>None\<close>: the call
  returned), whether the process exits within the 5 seconds of the first wait, and the
  same for the kill signal and the 3 seconds of the second wait.
\<close>

record timeout_env =
  getpgid_result :: "exn + nat"
  has_killpg :: bool
  sigterm_raises :: "exn option"
  exits_within_5 :: bool
  sigkill_raises :: "exn option"
  exits_within_3 :: bool

text \<open>
  What the process did: it could not be started (\<open>create_subprocess_exec\<close> raised); it
  exited before the deadline with a return code, the decoded standard output and standard
  error, and the listing of the output directory read afterwards; or the deadline elapsed
  first.
\<close>

datatype proc_outcome =
    Spawn_failed exn
  | Exited int string string "string list"
  | Deadline timeout_env

text \<open>
  \<open>with contextlib.suppress(ProcessLookupError)\<close>: the exception that leaves the block,
  given the one raised inside it.
\<close>

fun suppress_lookup :: "exn option \<Rightarrow> exn option" where
  "suppress_lookup None = None"
| "suppress_lookup (Some (ProcessLookupError m)) = None"
| "suppress_lookup (Some e) = Some e"

text \<open>
  A signalling call that returned, or raised \<open>ProcessLookupError\<close> (the process had
  already exited): the outcomes that leave no exception after \<open>suppress\<close>.
\<close>

fun returned_or_gone :: "exn option \<Rightarrow> bool" where
  "returned_or_gone None = True"
| "returned_or_gone (Some (ProcessLookupError m)) = True"
| "returned_or_gone (Some e) = False"

text \<open>
  The \<open>except asyncio.TimeoutError\<close> block of \<open>run_libreoffice_convert\<close>: the actions
  taken and the exception that leaves the block. \<open>if pgid and hasattr(os, "killpg")\<close>
  chooses the process group when the group id is known and not zero.
\<close>

definition on_timeout :: "timeout_env \<Rightarrow> action list \<times> exn" where
  "on_timeout env =
     (let pgid = (case getpgid_result env of Inr n \<Rightarrow> Some n | Inl e \<Rightarrow> None);
          grp = (case pgid of
                   Some n \<Rightarrow> if n \<noteq> 0 \<and> has_killpg env then Some n else None
                 | None \<Rightarrow> None);
          term = (case grp of Some n \<Rightarrow> Killpg n SIGTERM | None \<Rightarrow> Proc_terminate);
          kill = (case grp of Some n \<Rightarrow> Killpg n SIGKILL | None \<Rightarrow> Proc_kill)
      in case suppress_lookup (sigterm_raises env) of
           Some e \<Rightarrow> ([term], e)
         | None \<Rightarrow>
             if exits_within_5 env
             then ([term, Wait_for 5], RuntimeError ''Conversion timed out'')
             else
               (case suppress_lookup (sigkill_raises env) of
                  Some e \<Rightarrow> ([term, Wait_for 5, kill], e)
                | None \<Rightarrow>
                    ([term, Wait_for 5, kill, Wait_for 3],
                     RuntimeError ''Conversion timed out'')))"

text \<open>\<open>convert_to or "pdf"\<close>.\<close>

definition convert_target :: "string option \<Rightarrow> string" where
  "convert_target cto = (case cto of None \<Rightarrow> ''pdf'' | Some s \<Rightarrow> if s = [] then ''pdf'' else s)"

text \<open>\<open>(stderr_text or stdout_text or fallback).strip()\<close>.\<close>

definition details :: "string \<Rightarrow> string \<Rightarrow> string \<Rightarrow> string" where
  "details stderr_text stdout_text fallback =
     py_strip (if stderr_text \<noteq> [] then stderr_text
               else if stdout_text \<noteq> [] then stdout_text
               else fallback)"

text \<open>
  \<open>run_libreoffice_convert\<close>: the actions on the world, and the path returned or the
  exception raised. \<open>if not out\<close> holds for \<open>None\<close> and for the empty string.
\<close>

definition run_libreoffice_convert ::
  "string \<Rightarrow> string \<Rightarrow> string option \<Rightarrow> proc_outcome \<Rightarrow> action list \<times> (exn + string)" where
  "run_libreoffice_convert input_path output_dir cto outcome =
     (let start = Exec_soffice (convert_target cto) output_dir input_path in
      case outcome of
        Spawn_failed e \<Rightarrow> ([start], Inl e)
      | Deadline env \<Rightarrow>
          (case on_timeout env of (acts, e) \<Rightarrow> (start # acts @ [Rmtree_profile], Inl e))
      | Exited returncode stdout_text stderr_text listing \<Rightarrow>
          ([start, Rmtree_profile],
           if returncode \<noteq> 0
           then Inl (RuntimeError (''LibreOffice failed (code '' @ str_int returncode @ ''): ''
                                   @ details stderr_text stdout_text ''Unknown error''))
           else
             (let missing = Inl (RuntimeError (''Output file not created: ''
                                   @ details stderr_text stdout_text ''No output produced''))
              in case find_output_pdf input_path output_dir listing of
                   None \<Rightarrow> missing
                 | Some out \<Rightarrow> if out = [] then missing else Inr out)))"

section \<open>Example inputs\<close>

text \<open>A job as \<open>create_job\<close> makes it, with the default \<open>MAX_RETRIES = 2\<close>.\<close>

definition example_job :: job where
  "example_job =
     \<lparr> job_id = ''j1'', infile_path = ''/data/j1/input/report.odt'', outdir = ''/data/j1'',
       convert_to = None, status = Queued, message = None, outfile_path = None,
       retries = 0, max_retries = 2, finished_at = None \<rparr>"

text \<open>
  Two runners whose world is the list of the values of \<open>job.retries\<close> they were called
  with, and whose outcome depends on the value they see: one times out while the counter
  is below 2 and then succeeds, one times out while the counter is below 2 and then fails
  because the converter's executable is missing.
\<close>

definition spy_runner :: "int list runner" where
  "spy_runner w job =
     (if retries job < 2 then Inl (RuntimeError ''Conversion timed out'')
      else Inr (path_join (outdir job) ''report.pdf''), w @ [retries job])"

definition failing_spy_runner :: "int list runner" where
  "failing_spy_runner w job =
     (if retries job < 2 then Inl (RuntimeError ''Conversion timed out'')
      else Inl (OtherError ''FileNotFoundError'' ''[Errno 2] No such file or directory: soffice''),
      w @ [retries job])"

text \<open>
  Two runners whose world is the number of calls made so far: one that always fails, one
  that always succeeds.
\<close>

definition failing_runner :: "nat runner" where
  "failing_runner w job =
     (if w = 0 then Inl (RuntimeError ''LibreOffice failed (code 1): Unknown error'')
      else Inl (RuntimeError ''Conversion timed out''), Suc w)"

definition ok_runner :: "nat runner" where
  "ok_runner w job = (Inr (path_join (outdir job) ''report.pdf''), Suc w)"

text \<open>A queue with one free slot that holds the example job, queued.\<close>

definition example_queue :: convert_queue where
  "example_queue = \<lparr> sem = 1, jobs = [(''j1'', example_job)], pending = [''j1''] \<rparr>"

text \<open>A registry with one job of each of four statuses.\<close>

definition done_job :: job where
  "done_job = example_job\<lparr>status := Done, outfile_path := Some ''/data/j1/report.pdf'',
                           finished_at := Some 10\<rparr>"

definition failed_job :: job where
  "failed_job = example_job\<lparr>job_id := ''j2'', outdir := ''/data/j2'', status := Failed,
                             message := Some ''Conversion timed out'', retries := 2,
                             finished_at := Some 90\<rparr>"

definition running_job :: job where
  "running_job = example_job\<lparr>job_id := ''j3'', outdir := ''/data/j3'', status := Running\<rparr>"

definition cleaned_job :: job where
  "cleaned_job = example_job\<lparr>job_id := ''j4'', outdir := ''/data/j4'', status := Cleaned,
                              message := Some ''Cleaned up after retention period'',
                              finished_at := Some 20\<rparr>"

definition example_registry :: convert_queue where
  "example_registry =
     \<lparr> sem = 1,
       jobs = [(''j1'', done_job), (''j2'', failed_job), (''j3'', running_job),
               (''j4'', cleaned_job)],
       pending = [] \<rparr>"

text \<open>
  A process that ignores the termination signal and is gone when the kill signal is sent.
\<close>

definition example_timeout_env :: timeout_env where
  "example_timeout_env =
     \<lparr> getpgid_result = Inr 4242, has_killpg = True, sigterm_raises = None,
       exits_within_5 = False,
       sigkill_raises = Some (ProcessLookupError ''[Errno 3] No such process''),
       exits_within_3 = False \<rparr>"

text \<open>
  A queue with one free slot and nothing registered, and one whose admission queue holds
  one id, which is full when \<open>MAX_QUEUE_SIZE\<close> is 1.
\<close>

definition empty_queue :: convert_queue where
  "empty_queue = \<lparr> sem = 1, jobs = [], pending = [] \<rparr>"

definition full_queue :: convert_queue where
  "full_queue =
     \<lparr> sem = 1,
       jobs = [(''j0'', example_job\<lparr>job_id := ''j0'', outdir := ''/data/j0''\<rparr>)],
       pending = [''j0''] \<rparr>"

text \<open>
  The job of an asynchronous submission to the full queue, as \<open>enqueue\<close> leaves it, and
  the queue after the handler has returned.
\<close>

definition rejected_job :: job where
  "rejected_job = example_job\<lparr>status := Failed, message := Some ''Queue is full''\<rparr>"

definition queue_after_rejection :: convert_queue where
  "queue_after_rejection = full_queue\<lparr>jobs := jobs full_queue @ [(''j1'', rejected_job)]\<rparr>"

section \<open>The claims' notions, as the spec words them\<close>

text \<open>
  The expected extension for the requested target format: the name of the format (the
  target string up to a filter suffix after a colon, \<open>pdf\<close> when no target is given),
  after a dot. A file matches when its name is the input's base name with that extension.
\<close>

definition spec_expected_extension :: "string option \<Rightarrow> string" where
  "spec_expected_extension cto = ''.'' @ takeWhile (\<lambda>c. c \<noteq> CHR '':'') (convert_target cto)"

definition spec_output_matches :: "string \<Rightarrow> string option \<Rightarrow> string \<Rightarrow> bool" where
  "spec_output_matches input_path cto name \<longleftrightarrow>
     name = splitext_root (basename input_path) @ spec_expected_extension cto"

text \<open>
  The attempts of the retry controller: attempt \<open>i\<close> is the runner invoked on the job
  whose retry counter holds \<open>i\<close> (the 0-based index, recorded before the attempt begins),
  in the world that the attempts \<open>0, ..., i - 1\<close> have left. \<open>spec_world_before_attempt\<close>
  is that world, \<open>spec_attempt_outcome\<close> what the runner returns or raises in attempt \<open>i\<close>.
\<close>

fun spec_world_before_attempt :: "'w runner \<Rightarrow> job \<Rightarrow> 'w \<Rightarrow> nat \<Rightarrow> 'w" where
  "spec_world_before_attempt runner job w 0 = w"
| "spec_world_before_attempt runner job w (Suc i) =
     snd (runner (spec_world_before_attempt runner job w i) (job\<lparr>retries := int i\<rparr>))"

definition spec_attempt_outcome :: "'w runner \<Rightarrow> job \<Rightarrow> 'w \<Rightarrow> nat \<Rightarrow> exn + string" where
  "spec_attempt_outcome runner job w i =
     fst (runner (spec_world_before_attempt runner job w i) (job\<lparr>retries := int i\<rparr>))"

text \<open>
  The status transitions of the job state machine: queued to running, running to done or
  failed, done or failed to cleaned, and no other.
\<close>

definition spec_allowed_transition :: "job_status \<Rightarrow> job_status \<Rightarrow> bool" where
  "spec_allowed_transition s t \<longleftrightarrow>
     s = Queued \<and> t = Running \<or>
     s = Running \<and> (t = Done \<or> t = Failed) \<or>
     (s = Done \<or> s = Failed) \<and> t = Cleaned"

section \<open>The retry controller\<close>

lemma attempt_loop_log_prefix:
  "attempt_loop runner as le job w = (res, job', w', tr) \<Longrightarrow> prefix (map fst tr) as"
proof (induction as arbitrary: le job w res job' w' tr)
  case Nil
  then show ?case by simp
next
  case (Cons a as)
  then show ?case
    by (auto simp: Let_def split: prod.splits sum.splits)
qed

lemma attempt_loop_failed_before_last:
  "attempt_loop runner as le job w = (res, job', w', tr) \<Longrightarrow> Suc i < length tr \<Longrightarrow> isl (snd (tr ! i))"
proof (induction as arbitrary: le job w res job' w' tr i)
  case Nil
  then show ?case by simp
next
  case (Cons a as)
  then show ?case
    by (cases i) (auto simp: Let_def split: prod.splits sum.splits)
qed

lemma attempt_loop_success:
  "attempt_loop runner as le job w = (Inr p, job', w', tr) \<Longrightarrow> tr \<noteq> [] \<and> snd (last tr) = Inr p"
proof (induction as arbitrary: le job w job' w' tr)
  case Nil
  then show ?case by simp
next
  case (Cons a as)
  then show ?case
    by (fastforce simp: Let_def split: prod.splits sum.splits)
qed

lemma attempt_loop_exhausted:
  "attempt_loop runner as le job w = (Inl e, job', w', tr) \<Longrightarrow>
     map fst tr = as \<and> list_all (\<lambda>a. isl (snd a)) tr \<and>
     (if tr = [] then e = (case le of Some e0 \<Rightarrow> e0 | None \<Rightarrow> RuntimeError ''Unknown conversion failure'')
      else snd (last tr) = Inl e)"
proof (induction as arbitrary: le job w job' w' tr)
  case Nil
  then show ?case by auto
next
  case (Cons a as)
  then show ?case
    by (fastforce simp: Let_def split: prod.splits sum.splits if_splits)
qed

lemma attempt_loop_job:
  "attempt_loop runner as le job w = (res, job', w', tr) \<Longrightarrow>
     job' = (if tr = [] then job else job\<lparr>retries := fst (last tr)\<rparr>)"
proof (induction as arbitrary: le job w res job' w' tr)
  case Nil
  then show ?case by simp
next
  case (Cons a as)
  then show ?case
    by (fastforce simp: Let_def split: prod.splits sum.splits if_splits)
qed

lemma py_range_eq: "py_range n = map int [0..<nat n]"
  unfolding py_range_def
  by (rule nth_equalityI) simp_all

lemma log_indices:
  assumes "prefix (map fst tr) (py_range n)"
  shows "length tr \<le> nat n \<and> map fst tr = map int [0..<length tr]"
proof -
  from assms obtain zs where eq: "py_range n = map fst tr @ zs"
    by (auto simp: prefix_def)
  then have "length (py_range n) = length tr + length zs"
    by (metis length_append length_map)
  then have len: "length tr \<le> nat n"
    by (simp add: py_range_eq)
  from eq have "map fst tr = take (length tr) (py_range n)"
    by simp
  also have "\<dots> = map int [0..<length tr]"
    using len by (simp add: py_range_eq take_map take_upt)
  finally show ?thesis using len by simp
qed

lemma attempt_loop_calls:
  "attempt_loop runner (map int [k..<n]) le (job\<lparr>retries := r\<rparr>) w = (res, job', w', tr) \<Longrightarrow>
   w = spec_world_before_attempt runner job w0 k \<Longrightarrow>
     (\<forall>i<length tr. tr ! i = (int (k + i), spec_attempt_outcome runner job w0 (k + i)))
     \<and> w' = spec_world_before_attempt runner job w0 (k + length tr)"
proof (induction "n - k" arbitrary: k le r w res job' w' tr)
  case 0
  then show ?case by simp
next
  case (Suc d)
  then have kn: "k < n" and d: "d = n - Suc k"
    by simp_all
  have list: "map int [k..<n] = int k # map int [Suc k..<n]"
    using kn by (simp add: upt_conv_Cons)
  let ?job1 = "job\<lparr>retries := int k\<rparr>"
  obtain out w1 where call: "runner w ?job1 = (out, w1)"
    by (cases "runner w ?job1")
  have out: "spec_attempt_outcome runner job w0 k = out"
    using call Suc.prems(2) by (simp add: spec_attempt_outcome_def)
  have w1: "w1 = spec_world_before_attempt runner job w0 (Suc k)"
    using call Suc.prems(2) by simp
  show ?case
  proof (cases out)
    case (Inr path)
    with Suc.prems(1) list call have "tr = [(int k, Inr path)]" and "w' = w1"
      by (auto simp: Let_def)
    with out Inr w1 show ?thesis by simp
  next
    case (Inl e)
    obtain res2 job2 w2 tr2 where rest:
      "attempt_loop runner (map int [Suc k..<n]) (Some e) (job\<lparr>retries := int k\<rparr>) w1
         = (res2, job2, w2, tr2)"
      by (cases "attempt_loop runner (map int [Suc k..<n]) (Some e) (job\<lparr>retries := int k\<rparr>) w1")
        auto
    with Suc.prems(1) list call Inl have tr: "tr = (int k, Inl e) # tr2" and w': "w' = w2"
      by (auto simp: Let_def)
    from Suc.hyps(1) [OF d rest w1]
    have ih: "(\<forall>i<length tr2. tr2 ! i = (int (Suc k + i), spec_attempt_outcome runner job w0 (Suc k + i)))"
      and ihw: "w2 = spec_world_before_attempt runner job w0 (Suc k + length tr2)"
      by simp_all
    have "\<forall>i<length tr. tr ! i = (int (k + i), spec_attempt_outcome runner job w0 (k + i))"
    proof (intro allI impI)
      fix i
      assume i: "i < length tr"
      show "tr ! i = (int (k + i), spec_attempt_outcome runner job w0 (k + i))"
      proof (cases i)
        case 0
        with tr out Inl show ?thesis by simp
      next
        case (Suc j)
        with i tr have "j < length tr2" by simp
        with ih have "tr2 ! j = (int (Suc k + j), spec_attempt_outcome runner job w0 (Suc k + j))"
          by blast
        with Suc tr show ?thesis by simp
      qed
    qed
    moreover have "w' = spec_world_before_attempt runner job w0 (k + length tr)"
      using ihw w' tr by simp
    ultimately show ?thesis by simp
  qed
qed

lemma attempt_with_retries_calls:
  assumes "attempt_with_retries runner job w = (res, job', w', tr)"
  shows "(\<forall>i<length tr. tr ! i = (int i, spec_attempt_outcome runner job w i))
         \<and> w' = spec_world_before_attempt runner job w (length tr)"
proof -
  have "job\<lparr>retries := retries job\<rparr> = job" by simp
  with assms have
    "attempt_loop runner (map int [0..<nat (max_retries job + 1)]) None (job\<lparr>retries := retries job\<rparr>) w
       = (res, job', w', tr)"
    by (simp add: attempt_with_retries_def py_range_eq)
  from attempt_loop_calls [OF this, of w] show ?thesis by simp
qed


text \<open>
  C4, as the claim states it, fails: \<open>MAX_RETRIES\<close> is read from the environment without
  a check, and with \<open>MAX_RETRIES = -1\<close> the range of attempts is empty, no attempt runs, and
  the retry counter of the job stays at the 0 of its creation, above \<open>max_retries\<close>.
\<close>

theorem retry_counter_bound_counterexample:
  "attempt_with_retries spy_runner (example_job\<lparr>max_retries := - 1\<rparr>) [] =
     (Inl (RuntimeError ''Unknown conversion failure''), example_job\<lparr>max_retries := - 1\<rparr>,
      [], [])
   \<and> retries (example_job\<lparr>max_retries := - 1\<rparr>) = 0
   \<and> max_retries (example_job\<lparr>max_retries := - 1\<rparr>) = - 1
   \<and> \<not> retries (example_job\<lparr>max_retries := - 1\<rparr>)
         \<le> max_retries (example_job\<lparr>max_retries := - 1\<rparr>)"
  by code_simp

text \<open>
  C4, amended: the retry controller makes at most \<open>max_retries + 1\<close> attempts and none when
  that is not positive. Attempt \<open>i\<close> is the runner called on the job whose retry counter
  has just been set to \<open>i\<close>, in the world the earlier attempts have left: the log holds,
  for each call, that index and what the runner did on that job, and the final world is
  the one after these calls and no other. Every attempt but the last one made has failed,
  and a returned path is the result of the last one, so the controller stops at the first
  success. The values written to the counter are \<open>0, 1, 2, ...\<close> in order, each at most
  \<open>max_retries\<close>; for a job whose counter is 0 when the controller starts (as \<open>create_job\<close>
  sets it) and whose \<open>max_retries\<close> is not negative, the counter never decreases and never
  exceeds \<open>max_retries\<close>. With a negative \<open>max_retries\<close> the job and the world are left as
  they were.
\<close>

theorem retry_controller_attempts:
  assumes "attempt_with_retries runner job w = (res, job', w', tr)"
  shows "length tr \<le> nat (max_retries job + 1)
       \<and> (\<forall>i<length tr. tr ! i = (int i, spec_attempt_outcome runner job w i))
       \<and> w' = spec_world_before_attempt runner job w (length tr)
       \<and> (\<forall>i. Suc i < length tr \<longrightarrow> isl (spec_attempt_outcome runner job w i))
       \<and> (\<forall>p. res = Inr p \<longrightarrow>
             tr \<noteq> [] \<and> spec_attempt_outcome runner job w (length tr - 1) = Inr p)
       \<and> (isl res \<longrightarrow> length tr = nat (max_retries job + 1)
             \<and> (\<forall>i<length tr. isl (spec_attempt_outcome runner job w i)))
       \<and> job' = (if tr = [] then job else job\<lparr>retries := int (length tr) - 1\<rparr>)
       \<and> map fst tr = map int [0..<length tr]
       \<and> sorted (map fst tr)
       \<and> list_all (\<lambda>r. 0 \<le> r \<and> r \<le> max_retries job) (map fst tr)
       \<and> (retries job = 0 \<longrightarrow> 0 \<le> max_retries job \<longrightarrow>
            sorted (retries job # map fst tr)
            \<and> list_all (\<lambda>r. r \<le> max_retries job) (retries job # map fst tr)
            \<and> retries job' \<le> max_retries job)
       \<and> (max_retries job < 0 \<longrightarrow> tr = [] \<and> job' = job \<and> w' = w)"
proof -
  from assms have loop:
    "attempt_loop runner (py_range (max_retries job + 1)) None job w = (res, job', w', tr)"
    by (simp add: attempt_with_retries_def)
  have idx: "length tr \<le> nat (max_retries job + 1)" "map fst tr = map int [0..<length tr]"
    using log_indices [OF attempt_loop_log_prefix [OF loop]] by simp_all
  from attempt_with_retries_calls [OF assms]
  have calls: "\<forall>i<length tr. tr ! i = (int i, spec_attempt_outcome runner job w i)"
    and world: "w' = spec_world_before_attempt runner job w (length tr)"
    by simp_all
  have fails: "\<forall>i. Suc i < length tr \<longrightarrow> isl (spec_attempt_outcome runner job w i)"
  proof (intro allI impI)
    fix i
    assume i: "Suc i < length tr"
    then have "isl (snd (tr ! i))"
      by (rule attempt_loop_failed_before_last [OF loop])
    moreover from i calls have "snd (tr ! i) = spec_attempt_outcome runner job w i"
      by simp
    ultimately show "isl (spec_attempt_outcome runner job w i)"
      by simp
  qed
  have succ: "\<forall>p. res = Inr p \<longrightarrow>
             tr \<noteq> [] \<and> spec_attempt_outcome runner job w (length tr - 1) = Inr p"
  proof (intro allI impI)
    fix p
    assume "res = Inr p"
    with loop have "attempt_loop runner (py_range (max_retries job + 1)) None job w
                      = (Inr p, job', w', tr)"
      by simp
    from attempt_loop_success [OF this] have ne: "tr \<noteq> []" and l: "snd (last tr) = Inr p"
      by simp_all
    from ne have "last tr = tr ! (length tr - 1)"
      by (rule last_conv_nth)
    moreover from ne calls
    have "tr ! (length tr - 1) = (int (length tr - 1), spec_attempt_outcome runner job w (length tr - 1))"
      by simp
    ultimately show "tr \<noteq> [] \<and> spec_attempt_outcome runner job w (length tr - 1) = Inr p"
      using ne l by simp
  qed
  have lastidx: "tr \<noteq> [] \<Longrightarrow> fst (last tr) = int (length tr) - 1"
  proof -
    assume ne: "tr \<noteq> []"
    then have "fst (last tr) = last (map fst tr)"
      by (simp add: last_map)
    also have "\<dots> = last (map int [0..<length tr])"
      using idx(2) by simp
    also have "\<dots> = int (length tr) - 1"
      using ne by (cases "length tr") (simp_all add: last_map)
    finally show ?thesis .
  qed
  have jb: "job' = (if tr = [] then job else job\<lparr>retries := int (length tr) - 1\<rparr>)"
  proof (cases "tr = []")
    case True
    with attempt_loop_job [OF loop] show ?thesis by simp
  next
    case False
    with attempt_loop_job [OF loop] lastidx show ?thesis by simp
  qed
  have s: "sorted (map int [0..<length tr])"
    by (simp add: sorted_map sorted_wrt_iff_nth_less)
  have b: "list_all (\<lambda>r. 0 \<le> r \<and> r \<le> max_retries job) (map int [0..<length tr])"
    using idx(1) by (auto simp: list_all_iff)
  have written: "sorted (map fst tr)"
    "list_all (\<lambda>r. 0 \<le> r \<and> r \<le> max_retries job) (map fst tr)"
    unfolding idx(2) by (rule s, rule b)
  have mono: "sorted (retries job # map fst tr)
       \<and> list_all (\<lambda>r. r \<le> max_retries job) (retries job # map fst tr)
       \<and> retries job' \<le> max_retries job"
    if r0: "retries job = 0" and m0: "0 \<le> max_retries job"
  proof -
    have "sorted (retries job # map int [0..<length tr])"
      using s r0 by auto
    then have "sorted (retries job # map fst tr)"
      by (simp only: idx(2))
    moreover have "list_all (\<lambda>r. r \<le> max_retries job) (retries job # map int [0..<length tr])"
      using b r0 m0 by (auto simp: list_all_iff)
    then have "list_all (\<lambda>r. r \<le> max_retries job) (retries job # map fst tr)"
      by (simp only: idx(2))
    moreover have "retries job' \<le> max_retries job"
    proof (cases "tr = []")
      case True
      with jb r0 m0 show ?thesis by simp
    next
      case False
      with jb have "retries job' = int (length tr) - 1" by simp
      with idx(1) m0 show ?thesis by simp
    qed
    ultimately show ?thesis by simp
  qed
  have neg: "tr = [] \<and> job' = job \<and> w' = w" if "max_retries job < 0"
  proof -
    from that idx(1) have "tr = []" by simp
    with jb world show ?thesis by simp
  qed
  have exhausted: "isl res \<longrightarrow> length tr = nat (max_retries job + 1)
             \<and> (\<forall>i<length tr. isl (spec_attempt_outcome runner job w i))"
  proof (intro impI)
    assume "isl res"
    then obtain e where "res = Inl e"
      by (cases res) simp_all
    with loop have "attempt_loop runner (py_range (max_retries job + 1)) None job w
                      = (Inl e, job', w', tr)"
      by simp
    from attempt_loop_exhausted [OF this]
    have m: "map fst tr = py_range (max_retries job + 1)"
      and f: "list_all (\<lambda>a. isl (snd a)) tr"
      by simp_all
    from m have "length tr = length (py_range (max_retries job + 1))"
      by (metis length_map)
    then have len: "length tr = nat (max_retries job + 1)"
      by (simp add: py_range_eq)
    have "\<forall>i<length tr. isl (spec_attempt_outcome runner job w i)"
    proof (intro allI impI)
      fix i
      assume i: "i < length tr"
      with f have "isl (snd (tr ! i))"
        by (simp add: list_all_length)
      moreover from i calls have "snd (tr ! i) = spec_attempt_outcome runner job w i"
        by simp
      ultimately show "isl (spec_attempt_outcome runner job w i)"
        by simp
    qed
    with len show "length tr = nat (max_retries job + 1)
             \<and> (\<forall>i<length tr. isl (spec_attempt_outcome runner job w i))"
      by simp
  qed
  have mono': "retries job = 0 \<longrightarrow> 0 \<le> max_retries job \<longrightarrow>
            sorted (retries job # map fst tr)
            \<and> list_all (\<lambda>r. r \<le> max_retries job) (retries job # map fst tr)
            \<and> retries job' \<le> max_retries job"
    using mono by blast
  have neg': "max_retries job < 0 \<longrightarrow> tr = [] \<and> job' = job \<and> w' = w"
    using neg by blast
  show ?thesis
    by (intro conjI) (rule idx(1) calls world fails succ exhausted jb idx(2) written mono' neg')+
qed

theorem retry_controller_attempts_witness:
  "attempt_with_retries spy_runner example_job [] =
     (Inr ''/data/j1/report.pdf'', example_job\<lparr>retries := 2\<rparr>, [0, 1, 2],
      [(0, Inl (RuntimeError ''Conversion timed out'')),
       (1, Inl (RuntimeError ''Conversion timed out'')),
       (2, Inr ''/data/j1/report.pdf'')])
   \<and> spec_world_before_attempt spy_runner example_job [] 3 = [0, 1, 2]
   \<and> spec_attempt_outcome spy_runner example_job [] 0 = Inl (RuntimeError ''Conversion timed out'')
   \<and> spec_attempt_outcome spy_runner example_job [] 1 = Inl (RuntimeError ''Conversion timed out'')
   \<and> spec_attempt_outcome spy_runner example_job [] 2 = Inr ''/data/j1/report.pdf''
   \<and> retries example_job = 0 \<and> 0 \<le> max_retries example_job
   \<and> (3::nat) \<le> nat (max_retries example_job + 1)
   \<and> sorted [retries example_job, 0, 1, 2]
   \<and> retries (example_job\<lparr>retries := 2\<rparr>) \<le> max_retries example_job
   \<and> max_retries (example_job\<lparr>max_retries := - 1\<rparr>) < 0
   \<and> attempt_with_retries failing_spy_runner (example_job\<lparr>max_retries := - 1\<rparr>) [] =
       (Inl (RuntimeError ''Unknown conversion failure''), example_job\<lparr>max_retries := - 1\<rparr>,
        [], [])"
proof -
  have none: "attempt_with_retries failing_spy_runner (example_job\<lparr>max_retries := - 1\<rparr>) [] =
       (Inl (RuntimeError ''Unknown conversion failure''), example_job\<lparr>max_retries := - 1\<rparr>,
        [], [])"
    by code_simp
  have negative: "max_retries (example_job\<lparr>max_retries := - 1\<rparr>) < 0"
    by simp
  have run: "attempt_with_retries spy_runner example_job [] =
     (Inr ''/data/j1/report.pdf'', example_job\<lparr>retries := 2\<rparr>, [0, 1, 2],
      [(0, Inl (RuntimeError ''Conversion timed out'')),
       (1, Inl (RuntimeError ''Conversion timed out'')),
       (2, Inr ''/data/j1/report.pdf'')])"
    by code_simp
  have seen: "spec_world_before_attempt spy_runner example_job [] 3 = [0, 1, 2]"
    by code_simp
  have o0: "spec_attempt_outcome spy_runner example_job [] 0 = Inl (RuntimeError ''Conversion timed out'')"
    by code_simp
  have o1: "spec_attempt_outcome spy_runner example_job [] 1 = Inl (RuntimeError ''Conversion timed out'')"
    by code_simp
  have o2: "spec_attempt_outcome spy_runner example_job [] 2 = Inr ''/data/j1/report.pdf''"
    by code_simp
  from retry_controller_attempts [OF run]
  have "length [(0::int, Inl (RuntimeError ''Conversion timed out'') :: exn + string),
                (1, Inl (RuntimeError ''Conversion timed out'')),
                (2, Inr ''/data/j1/report.pdf'')] \<le> nat (max_retries example_job + 1)"
    by (rule conjunct1)
  then have bound: "(3::nat) \<le> nat (max_retries example_job + 1)"
    by simp
  have r0: "retries example_job = 0" and m0: "0 \<le> max_retries example_job"
    by (simp_all add: example_job_def)
  have srt: "sorted [retries example_job, 0, 1, 2]"
    by (simp add: example_job_def)
  have fin: "retries (example_job\<lparr>retries := 2\<rparr>) \<le> max_retries example_job"
    by (simp add: example_job_def)
  show ?thesis
    by (intro conjI) (rule run seen o0 o1 o2 r0 m0 bound srt fin negative none)+
qed




section \<open>The scheduler loop\<close>

lemma store_sem: "sem (store job q) = sem q"
  by (simp add: store_def split: option.splits)

lemma store_pending: "pending (store job q) = pending q"
  by (simp add: store_def split: option.splits)

lemma run_job_exit_job:
  "fst (run_job_exit now res job q) =
     (case res of
        Inr path \<Rightarrow> job\<lparr>outfile_path := Some path, status := Done, finished_at := Some now\<rparr>
      | Inl e \<Rightarrow> job\<lparr>status := Failed, message := Some (str_exn e), finished_at := Some now\<rparr>)"
  by (simp add: run_job_exit_def Let_def)

lemma run_job_exit_sem: "sem (snd (run_job_exit now res job q)) = sem q + 1"
  by (simp add: run_job_exit_def Let_def store_sem)

lemma run_job_enter_job: "fst (run_job_enter job q) = job\<lparr>status := Running\<rparr>"
  by (simp add: run_job_enter_def Let_def)

lemma run_job_enter_sem: "sem (snd (run_job_enter job q)) = sem q - 1"
  by (simp add: run_job_enter_def Let_def store_sem)

lemma run_job_unfold:
  assumes "0 < sem q"
  shows "run_job runner now job q w =
           (let r = attempt_with_retries runner (fst (run_job_enter job q)) w;
                x = run_job_exit now (fst r) (fst (snd r)) (snd (run_job_enter job q))
            in Some (None, fst x, snd x, fst (snd (snd r))))"
  using assms by (simp add: run_job_def Let_def split: prod.splits)

text \<open>
  C3: with a free slot, \<open>run_job\<close> returns without an exception for every job and every
  runner, with the slot released and \<open>finished_at\<close> set; the job is \<open>Done\<close> with the
  output path when the retry controller returned one, and \<open>Failed\<close> with the message of
  the exception when it raised.
\<close>

theorem run_job_terminal:
  assumes "0 < sem q"
  shows "\<exists>job' q' w'. run_job runner now job q w = Some (None, job', q', w')
           \<and> sem q' = sem q
           \<and> finished_at job' = Some now
           \<and> (case fst (attempt_with_retries runner (fst (run_job_enter job q)) w) of
                Inr path \<Rightarrow> status job' = Done \<and> outfile_path job' = Some path
              | Inl e \<Rightarrow> status job' = Failed \<and> message job' = Some (str_exn e))"
  using assms
  by (auto simp: run_job_unfold Let_def run_job_exit_job run_job_exit_sem run_job_enter_sem
      split: sum.splits)

theorem run_job_terminal_witness:
  "0 < sem example_queue
   \<and> run_job failing_runner 7 example_job example_queue 0 =
       Some (None,
             example_job\<lparr>retries := 2, status := Failed,
                          message := Some ''Conversion timed out'', finished_at := Some 7\<rparr>,
             example_queue\<lparr>pending := [],
               jobs := [(''j1'', example_job\<lparr>retries := 2, status := Failed,
                           message := Some ''Conversion timed out'', finished_at := Some 7\<rparr>)]\<rparr>,
             3)"
proof -
  have free: "0 < sem example_queue"
    by (simp add: example_queue_def)
  have run: "run_job failing_runner 7 example_job example_queue 0 =
       Some (None,
             example_job\<lparr>retries := 2, status := Failed,
                          message := Some ''Conversion timed out'', finished_at := Some 7\<rparr>,
             example_queue\<lparr>pending := [],
               jobs := [(''j1'', example_job\<lparr>retries := 2, status := Failed,
                           message := Some ''Conversion timed out'', finished_at := Some 7\<rparr>)]\<rparr>,
             3)"
    by code_simp
  show ?thesis
    using free run run_job_terminal [OF free, of failing_runner 7 example_job 0]
    by simp
qed

section \<open>The registry\<close>

lemma fold_delete_filter:
  "fold AList.delete ks xs = filter (\<lambda>(k, v). k \<notin> set ks) xs"
proof (induction ks arbitrary: xs)
  case Nil
  then show ?case by simp
next
  case (Cons k ks)
  have "fold AList.delete (k # ks) xs = filter (\<lambda>(k', v). k' \<notin> set ks) (AList.delete k xs)"
    using Cons.IH by simp
  also have "\<dots> = filter (\<lambda>(k', v). k' \<notin> set (k # ks)) xs"
    by (auto simp: AList.delete_eq intro: filter_cong)
  finally show ?case .
qed

lemma key_selected_iff:
  assumes "distinct (map fst xs)" and "(k, v) \<in> set xs"
  shows "k \<in> set (map fst (filter P xs)) \<longleftrightarrow> P (k, v)"
proof
  assume "k \<in> set (map fst (filter P xs))"
  then obtain v' where in': "(k, v') \<in> set xs" and p: "P (k, v')"
    by auto
  from assms in' have "v' = v"
    by (meson eq_key_imp_eq_value)
  with p show "P (k, v)" by simp
next
  assume "P (k, v)"
  with assms(2) show "k \<in> set (map fst (filter P xs))"
    by force
qed

lemma map_of_filter_distinct:
  assumes "distinct (map fst xs)"
  shows "map_of (filter P xs) k =
           (case map_of xs k of None \<Rightarrow> None | Some v \<Rightarrow> if P (k, v) then Some v else None)"
  using assms
proof (induction xs)
  case Nil
  then show ?case by simp
next
  case (Cons x xs)
  obtain k' v' where x: "x = (k', v')" by (cases x)
  from Cons.prems x have notin: "k' \<notin> fst ` set xs" and d: "distinct (map fst xs)"
    by simp_all
  from notin have none: "map_of xs k' = None"
    by (simp add: map_of_eq_None_iff)
  show ?case
  proof (cases "k = k'")
    case True
    have "map_of (filter P xs) k' = None"
      using Cons.IH [OF d] none True by simp
    with True x show ?thesis by simp
  next
    case False
    with x Cons.IH [OF d] show ?thesis by simp
  qed
qed

text \<open>
  C8: on a registry with unique ids, the eviction sweep deletes exactly the records whose
  status is \<open>Done\<close>, \<open>Failed\<close> or \<open>Cleaned\<close> and whose \<open>finished_at\<close> is set and lies
  more than the retention window before the current time; every other record stays, with
  the fields and in the order it had, and \<open>get\<close> finds it unchanged. With a retention
  window of zero or less the sweep deletes nothing.
\<close>

theorem evict_old_jobs_exact:
  assumes "distinct (map fst (jobs q))"
  shows "evict_old_jobs ttl now q =
           q\<lparr>jobs := (if ttl \<le> 0 then jobs q
                       else filter (\<lambda>(jid, job).
                              \<not> (status job \<in> {Done, Failed, Cleaned} \<and>
                                 (\<exists>t. finished_at job = Some t \<and> now - t > real_of_int ttl)))
                            (jobs q))\<rparr>
       \<and> get (evict_old_jobs ttl now q) jid =
           (case get q jid of
              None \<Rightarrow> None
            | Some job \<Rightarrow>
                if 0 < ttl \<and> status job \<in> {Done, Failed, Cleaned} \<and>
                   (\<exists>t. finished_at job = Some t \<and> now - t > real_of_int ttl)
                then None else Some job)"
proof -
  let ?old = "\<lambda>(jid :: string, job). status job \<in> {Done, Failed, Cleaned} \<and>
                 (\<exists>t. finished_at job = Some t \<and> now - t > real_of_int ttl)"
  have sel: "filter (\<lambda>(jid, job). expired ttl now job) (jobs q) = filter ?old (jobs q)"
    by (rule filter_cong) (auto simp: expired_def split: option.splits)
  have keep: "filter (\<lambda>(k, v). k \<notin> set (map fst (filter ?old (jobs q)))) (jobs q)
                = filter (\<lambda>x. \<not> ?old x) (jobs q)"
  proof (rule filter_cong)
    fix x
    assume mem: "x \<in> set (jobs q)"
    obtain k v where x: "x = (k, v)" by (cases x)
    from mem x have "(k, v) \<in> set (jobs q)" by simp
    from key_selected_iff [OF assms this, of ?old]
    have "k \<in> set (map fst (filter ?old (jobs q))) \<longleftrightarrow> ?old (k, v)" .
    then show "(case x of (k, v) \<Rightarrow> k \<notin> set (map fst (filter ?old (jobs q)))) = (\<not> ?old x)"
      unfolding x by simp
  qed simp
  have jobs_eq: "jobs (evict_old_jobs ttl now q) =
           (if ttl \<le> 0 then jobs q else filter (\<lambda>x. \<not> ?old x) (jobs q))"
  proof (cases "ttl \<le> 0")
    case True
    then show ?thesis by (simp add: evict_old_jobs_def)
  next
    case False
    then have "jobs (evict_old_jobs ttl now q) =
        fold AList.delete (map fst (filter (\<lambda>(jid, job). expired ttl now job) (jobs q))) (jobs q)"
      by (simp add: evict_old_jobs_def Let_def)
    also have "\<dots> = filter (\<lambda>(k, v). k \<notin> set (map fst (filter ?old (jobs q)))) (jobs q)"
      unfolding sel by (rule fold_delete_filter)
    also note keep
    finally show ?thesis using False by simp
  qed
  have not_old: "(\<lambda>x. \<not> ?old x) = (\<lambda>(jid, job).
                              \<not> (status job \<in> {Done, Failed, Cleaned} \<and>
                                 (\<exists>t. finished_at job = Some t \<and> now - t > real_of_int ttl)))"
    by (auto simp: fun_eq_iff)
  have first: "evict_old_jobs ttl now q =
           q\<lparr>jobs := (if ttl \<le> 0 then jobs q
                       else filter (\<lambda>(jid, job).
                              \<not> (status job \<in> {Done, Failed, Cleaned} \<and>
                                 (\<exists>t. finished_at job = Some t \<and> now - t > real_of_int ttl)))
                            (jobs q))\<rparr>"
    using jobs_eq unfolding not_old by (simp add: evict_old_jobs_def Let_def)
  have second: "get (evict_old_jobs ttl now q) jid =
           (case get q jid of
              None \<Rightarrow> None
            | Some job \<Rightarrow>
                if 0 < ttl \<and> status job \<in> {Done, Failed, Cleaned} \<and>
                   (\<exists>t. finished_at job = Some t \<and> now - t > real_of_int ttl)
                then None else Some job)"
  proof (cases "ttl \<le> 0")
    case True
    then show ?thesis
      by (simp add: get_def evict_old_jobs_def split: option.splits)
  next
    case False
    then have "get (evict_old_jobs ttl now q) jid = map_of (filter (\<lambda>x. \<not> ?old x) (jobs q)) jid"
      by (simp add: get_def jobs_eq)
    also have "\<dots> = (case map_of (jobs q) jid of None \<Rightarrow> None
                      | Some v \<Rightarrow> if \<not> ?old (jid, v) then Some v else None)"
      by (rule map_of_filter_distinct [OF assms])
    finally show ?thesis
      using False by (auto simp: get_def split: option.splits)
  qed
  from first second show ?thesis by (rule conjI)
qed

theorem evict_old_jobs_exact_witness:
  "distinct (map fst (jobs example_registry))
   \<and> evict_old_jobs 50 100 example_registry =
       example_registry\<lparr>jobs := [(''j2'', failed_job), (''j3'', running_job)]\<rparr>
   \<and> get (evict_old_jobs 50 100 example_registry) ''j1'' = None
   \<and> get (evict_old_jobs 50 100 example_registry) ''j2'' = Some failed_job
   \<and> evict_old_jobs 0 100 example_registry = example_registry"
proof -
  have d: "distinct (map fst (jobs example_registry))"
    by (simp add: example_registry_def)
  show ?thesis
    using d evict_old_jobs_exact [OF d, of 50 100 "''j1''"]
      evict_old_jobs_exact [OF d, of 50 100 "''j2''"]
      evict_old_jobs_exact [OF d, of 0 100 "''j1''"]
    by (simp add: example_registry_def get_def done_job_def failed_job_def running_job_def
        cleaned_job_def example_job_def)
qed

lemma count_by_status:
  "length (filter (\<lambda>j. status j = Queued) js) + length (filter (\<lambda>j. status j = Running) js)
     + length (filter (\<lambda>j. status j = Done) js) + length (filter (\<lambda>j. status j = Failed) js)
     + length (filter (\<lambda>j. status j = Cleaned) js) = length js"
proof (induction js)
  case Nil
  then show ?case by simp
next
  case (Cons j js)
  then show ?case by (cases "status j") simp_all
qed

text \<open>
  C10: \<open>counters\<close> reports as total the number of records of the registry and counts the
  records by status for \<open>Queued\<close>, \<open>Running\<close>, \<open>Done\<close> and \<open>Failed\<close> only; the four
  counts add up to the total less the number of \<open>Cleaned\<close> records.
\<close>

theorem counters_buckets:
  "c_total (counters q) = length (jobs q)
   \<and> c_queue_len (counters q) = length (filter (\<lambda>(jid, j). status j = Queued) (jobs q))
   \<and> c_running (counters q) = length (filter (\<lambda>(jid, j). status j = Running) (jobs q))
   \<and> c_done (counters q) = length (filter (\<lambda>(jid, j). status j = Done) (jobs q))
   \<and> c_failed (counters q) = length (filter (\<lambda>(jid, j). status j = Failed) (jobs q))
   \<and> c_queue_len (counters q) + c_running (counters q) + c_done (counters q)
       + c_failed (counters q)
       = c_total (counters q) - length (filter (\<lambda>(jid, j). status j = Cleaned) (jobs q))"
proof -
  have cnt: "length (filter (\<lambda>j. status j = s) (map snd xs))
               = length (filter (\<lambda>(jid, j). status j = s) xs)" for s and xs :: "(string \<times> job) list"
    by (induction xs) auto
  show ?thesis
    using count_by_status [of "map snd (jobs q)"]
    unfolding counters_def cnt by simp
qed


theorem counters_buckets_witness:
  "counters example_registry =
     \<lparr> c_total = 4, c_queue_len = 0, c_running = 1, c_done = 1, c_failed = 1 \<rparr>
   \<and> length (filter (\<lambda>(jid, j). status j = Cleaned) (jobs example_registry)) = 1"
  using counters_buckets [of example_registry]
  by (simp add: counters_def example_registry_def done_job_def failed_job_def running_job_def
      cleaned_job_def example_job_def)

section \<open>The process runner\<close>

lemma suppress_lookup_gone: "returned_or_gone r \<Longrightarrow> suppress_lookup r = None"
  by (induction r rule: returned_or_gone.induct) simp_all

text \<open>
  C2: when the deadline elapses and each signalling call either returns or raises
  \<open>ProcessLookupError\<close> (the process has already exited), the runner raises
  \<open>RuntimeError("Conversion timed out")\<close>, whether or not the process exits after the
  kill; and when the group id of the process is known (\<open>os.getpgid\<close> returned it), the
  runner sends \<open>SIGTERM\<close> to the group, waits up to 5 seconds, and only if the process has
  not exited by then sends \<open>SIGKILL\<close> to the group and waits up to 3 seconds more.
  A \<open>ProcessLookupError\<close> changes neither the steps nor the error.
\<close>

theorem timeout_escalation:
  assumes "returned_or_gone (sigterm_raises env)" and "returned_or_gone (sigkill_raises env)"
  shows "snd (run_libreoffice_convert input_path output_dir cto (Deadline env))
           = Inl (RuntimeError ''Conversion timed out'')
       \<and> (\<forall>g. getpgid_result env = Inr g \<and> g \<noteq> 0 \<and> has_killpg env \<longrightarrow>
             fst (run_libreoffice_convert input_path output_dir cto (Deadline env))
               = [Exec_soffice (convert_target cto) output_dir input_path,
                  Killpg g SIGTERM, Wait_for 5]
                 @ (if exits_within_5 env then [] else [Killpg g SIGKILL, Wait_for 3])
                 @ [Rmtree_profile])"
  using suppress_lookup_gone [OF assms(1)] suppress_lookup_gone [OF assms(2)]
  by (simp add: run_libreoffice_convert_def on_timeout_def Let_def)

theorem timeout_escalation_witness:
  "returned_or_gone (sigterm_raises example_timeout_env)
   \<and> returned_or_gone (sigkill_raises example_timeout_env)
   \<and> run_libreoffice_convert ''/data/j1/input/report.odt'' ''/data/j1'' None
         (Deadline example_timeout_env)
       = ([Exec_soffice ''pdf'' ''/data/j1'' ''/data/j1/input/report.odt'',
           Killpg 4242 SIGTERM, Wait_for 5, Killpg 4242 SIGKILL, Wait_for 3, Rmtree_profile],
          Inl (RuntimeError ''Conversion timed out''))"
proof -
  have t: "returned_or_gone (sigterm_raises example_timeout_env)"
    by (simp add: example_timeout_env_def)
  have k: "returned_or_gone (sigkill_raises example_timeout_env)"
    by (simp add: example_timeout_env_def)
  show ?thesis
    using t k timeout_escalation [OF t k, of "''/data/j1/input/report.odt''" "''/data/j1''" None]
    by (simp add: example_timeout_env_def convert_target_def prod_eq_iff)
qed

lemma find_loop_none:
  "\<forall>name \<in> set listing. \<not> output_name_matches base name \<Longrightarrow>
     find_loop base output_dir listing = None"
  by (induction listing) simp_all

lemma find_loop_first:
  "\<forall>n \<in> set pre. \<not> output_name_matches base n \<Longrightarrow> output_name_matches base name \<Longrightarrow>
     find_loop base output_dir (pre @ name # post) = Some (path_join output_dir name)"
  by (induction pre) simp_all

lemma matching_name_not_empty: "output_name_matches base name \<Longrightarrow> name \<noteq> []"
  by (auto simp: output_name_matches_def py_lower_def)

lemma path_join_not_empty: "name \<noteq> [] \<Longrightarrow> path_join output_dir name \<noteq> []"
  by (simp add: path_join_def)

lemma path_join_absolute: "prefix ''/'' output_dir \<Longrightarrow> prefix ''/'' (path_join output_dir name)"
  by (auto simp: path_join_def prefix_def)

text \<open>
  C5, as the claim states it, fails: with the target format \<open>docx\<close> and an exit status
  of 0, the output directory holds \<open>report.docx\<close>, the file with the input's base name
  and the extension of the requested format, and the call raises
  \<open>Output file not created\<close>.
\<close>

theorem output_lookup_by_target_counterexample:
  "spec_output_matches ''/data/j1/input/report.odt'' (Some ''docx'') ''report.docx''
   \<and> snd (run_libreoffice_convert ''/data/j1/input/report.odt'' ''/data/j1'' (Some ''docx'')
            (Exited 0 [] [] [''input'', ''report.docx'']))
       = Inl (RuntimeError ''Output file not created: No output produced'')"
  by code_simp

text \<open>
  C5, amended: after an exit with status 0 the runner looks, whatever the requested target
  format, for the first name of the directory listing that starts with the input's base
  name and ends, case-insensitively, with \<open>.pdf\<close>. If there is none, the call raises
  \<open>RuntimeError\<close> with \<open>Output file not created: \<close> followed by the stripped standard
  error text, or the standard output text if that is empty, or \<open>No output produced\<close> if
  both are; otherwise it returns the output directory joined with that name, an absolute
  path when the output directory is one.
\<close>

theorem output_lookup_pdf:
  "((\<forall>name \<in> set listing. \<not> output_name_matches (splitext_root (basename input_path)) name) \<longrightarrow>
      snd (run_libreoffice_convert input_path output_dir cto
             (Exited 0 stdout_text stderr_text listing))
        = Inl (RuntimeError (''Output file not created: '' @
                 py_strip (if stderr_text \<noteq> [] then stderr_text
                           else if stdout_text \<noteq> [] then stdout_text
                           else ''No output produced''))))
   \<and> ((\<forall>n \<in> set pre. \<not> output_name_matches (splitext_root (basename input_path)) n) \<and>
        output_name_matches (splitext_root (basename input_path)) name \<longrightarrow>
      snd (run_libreoffice_convert input_path output_dir cto
             (Exited 0 stdout_text stderr_text (pre @ name # post)))
        = Inr (path_join output_dir name)
      \<and> (prefix ''/'' output_dir \<longrightarrow> prefix ''/'' (path_join output_dir name)))"
proof (intro conjI impI)
  assume "\<forall>name \<in> set listing. \<not> output_name_matches (splitext_root (basename input_path)) name"
  then have "find_output_pdf input_path output_dir listing = None"
    unfolding find_output_pdf_def by (rule find_loop_none)
  then show "snd (run_libreoffice_convert input_path output_dir cto
             (Exited 0 stdout_text stderr_text listing))
        = Inl (RuntimeError (''Output file not created: '' @
                 py_strip (if stderr_text \<noteq> [] then stderr_text
                           else if stdout_text \<noteq> [] then stdout_text
                           else ''No output produced'')))"
    by (simp add: run_libreoffice_convert_def details_def)
next
  assume a: "(\<forall>n \<in> set pre. \<not> output_name_matches (splitext_root (basename input_path)) n) \<and>
        output_name_matches (splitext_root (basename input_path)) name"
  then have "find_output_pdf input_path output_dir (pre @ name # post)
               = Some (path_join output_dir name)"
    unfolding find_output_pdf_def by (simp add: find_loop_first)
  moreover have "path_join output_dir name \<noteq> []"
    using a matching_name_not_empty path_join_not_empty by blast
  ultimately show "snd (run_libreoffice_convert input_path output_dir cto
             (Exited 0 stdout_text stderr_text (pre @ name # post)))
        = Inr (path_join output_dir name)"
    by (simp add: run_libreoffice_convert_def)
next
  assume "prefix ''/'' output_dir"
  then show "prefix ''/'' (path_join output_dir name)"
    by (rule path_join_absolute)
qed

theorem output_lookup_pdf_witness:
  "\<not> output_name_matches (splitext_root (basename ''/data/j1/input/report.odt'')) ''input''
   \<and> snd (run_libreoffice_convert ''/data/j1/input/report.odt'' ''/data/j1'' (Some ''docx'')
            (Exited 0 [] ''Error: no export filter'' [''input'']))
       = Inl (RuntimeError ''Output file not created: Error: no export filter'')
   \<and> output_name_matches (splitext_root (basename ''/data/j1/input/report.odt'')) ''report_old.PDF''
   \<and> snd (run_libreoffice_convert ''/data/j1/input/report.odt'' ''/data/j1'' None
            (Exited 0 [] [] [''input'', ''report_old.PDF'', ''report.pdf'']))
       = Inr ''/data/j1/report_old.PDF''
   \<and> prefix ''/'' ''/data/j1''"
proof -
  have base: "splitext_root (basename ''/data/j1/input/report.odt'') = ''report''"
    by code_simp
  have no: "\<not> output_name_matches ''report'' ''input''"
    by code_simp
  have yes: "output_name_matches ''report'' ''report_old.PDF''"
    by code_simp
  have strip: "py_strip ''Error: no export filter'' = ''Error: no export filter''"
    by code_simp
  have join: "path_join ''/data/j1'' ''report_old.PDF'' = ''/data/j1/report_old.PDF''"
    by code_simp
  show ?thesis
    using no yes
      output_lookup_pdf [where listing = "[''input'']"
        and input_path = "''/data/j1/input/report.odt''" and output_dir = "''/data/j1''"
        and cto = "Some ''docx''" and stdout_text = "[]"
        and stderr_text = "''Error: no export filter''" and pre = "[''input'']"
        and name = "''report_old.PDF''" and post = "[''report.pdf'']"]
      output_lookup_pdf [where listing = "[''input'']"
        and input_path = "''/data/j1/input/report.odt''" and output_dir = "''/data/j1''"
        and cto = None and stdout_text = "[]" and stderr_text = "[]" and pre = "[''input'']"
        and name = "''report_old.PDF''" and post = "[''report.pdf'']"]
    by (simp add: base strip join)
qed

section \<open>The job state machine\<close>

lemma map_of_fold_delete:
  "map_of (fold AList.delete ks xs) k = (if k \<in> set ks then None else map_of xs k)"
  by (induction ks arbitrary: xs) (simp_all add: AList.delete_conv)

lemma evict_keeps_or_deletes:
  "get (evict_old_jobs ttl now q) jid = Some job \<Longrightarrow> get q jid = Some job"
  by (auto simp: get_def evict_old_jobs_def Let_def map_of_fold_delete split: if_splits)

lemma cleanup_job_status:
  "get q jid = Some job \<Longrightarrow> map_option status (get (cleanup_job now jid q) jid) = Some Cleaned"
  by (simp add: get_def cleanup_job_def Let_def AList.update_conv)

lemma cleanup_job_others:
  "jid' \<noteq> jid \<Longrightarrow> get (cleanup_job now jid q) jid' = get q jid'"
  by (simp add: get_def cleanup_job_def Let_def AList.update_conv split: option.splits)

lemma cleanup_job_unregistered:
  "get q jid = None \<Longrightarrow> cleanup_job now jid q = q"
  by (simp add: get_def cleanup_job_def)

lemma run_job_statuses:
  "0 < sem q \<Longrightarrow>
     status (fst (run_job_enter job q)) = Running \<and>
     (\<exists>job' q' w'. run_job runner now job q w = Some (None, job', q', w') \<and>
        status job' \<in> {Done, Failed})"
  by (auto simp: run_job_unfold Let_def run_job_exit_job run_job_enter_job split: sum.splits)

text \<open>
  C6, as the claim states it, fails: \<open>cleanup_job\<close> sets \<open>Cleaned\<close> on a registered job
  whatever its status, so a queued job and a running job go to \<open>Cleaned\<close> directly, which
  are not transitions the claim allows.
\<close>

theorem cleanup_from_queued_counterexample:
  "map_option status (get example_queue ''j1'') = Some Queued
   \<and> map_option status (get (cleanup_job 100 ''j1'' example_queue) ''j1'') = Some Cleaned
   \<and> \<not> spec_allowed_transition Queued Cleaned
   \<and> map_option status (get example_registry ''j3'') = Some Running
   \<and> map_option status (get (cleanup_job 100 ''j3'' example_registry) ''j3'') = Some Cleaned
   \<and> \<not> spec_allowed_transition Running Cleaned"
  by (simp add: get_def cleanup_job_def example_queue_def example_registry_def example_job_def
      running_job_def spec_allowed_transition_def)

text \<open>
  C6, amended: \<open>run_job\<close> moves a queued job to \<open>Running\<close> when it has its slot and then
  to \<open>Done\<close> or \<open>Failed\<close>; \<open>cleanup_job\<close> moves every registered job to \<open>Cleaned\<close>
  whatever its status (queued and running included, and a cleaned job stays cleaned),
  changes no other record, and does nothing for an id that is not registered; eviction
  changes no record it keeps, it only deletes records.
\<close>

theorem status_transitions:
  "(status job = Queued \<and> 0 < sem q \<longrightarrow>
      status (fst (run_job_enter job q)) = Running \<and>
      (\<exists>job' q' w'. run_job runner now job q w = Some (None, job', q', w') \<and>
         status job' \<in> {Done, Failed}))
   \<and> (get q jid = Some job \<longrightarrow>
        map_option status (get (cleanup_job now jid q) jid) = Some Cleaned)
   \<and> (jid' \<noteq> jid \<longrightarrow> get (cleanup_job now jid q) jid' = get q jid')
   \<and> (get q jid = None \<longrightarrow> cleanup_job now jid q = q)
   \<and> (get (evict_old_jobs ttl now q) jid = Some job \<longrightarrow> get q jid = Some job)"
  using run_job_statuses [of q job runner now w] cleanup_job_status [of q jid job now]
    cleanup_job_others [of jid' jid now q] cleanup_job_unregistered [of q jid now]
    evict_keeps_or_deletes [of ttl now q jid job]
  by blast

theorem status_transitions_witness:
  "status example_job = Queued \<and> 0 < sem example_queue
   \<and> status (fst (run_job_enter example_job example_queue)) = Running
   \<and> run_job ok_runner 7 example_job example_queue 0 =
       Some (None,
             example_job\<lparr>status := Done, outfile_path := Some ''/data/j1/report.pdf'',
                          finished_at := Some 7\<rparr>,
             example_queue\<lparr>pending := [],
               jobs := [(''j1'', example_job\<lparr>status := Done,
                           outfile_path := Some ''/data/j1/report.pdf'',
                           finished_at := Some 7\<rparr>)]\<rparr>,
             1)
   \<and> get example_registry ''j3'' = Some running_job
   \<and> map_option status (get (cleanup_job 100 ''j3'' example_registry) ''j3'') = Some Cleaned
   \<and> ''j4'' \<noteq> ''j3''
   \<and> get (cleanup_job 100 ''j3'' example_registry) ''j4'' = Some cleaned_job
   \<and> map_option status (get (cleanup_job 100 ''j4'' example_registry) ''j4'') = Some Cleaned
   \<and> get example_registry ''j9'' = None
   \<and> cleanup_job 100 ''j9'' example_registry = example_registry
   \<and> get (evict_old_jobs 50 100 example_registry) ''j2'' = Some failed_job
   \<and> get example_registry ''j2'' = Some failed_job"
proof -
  have enter: "status example_job = Queued \<and> 0 < sem example_queue"
    by (simp add: example_job_def example_queue_def)
  have run: "run_job ok_runner 7 example_job example_queue 0 =
       Some (None,
             example_job\<lparr>status := Done, outfile_path := Some ''/data/j1/report.pdf'',
                          finished_at := Some 7\<rparr>,
             example_queue\<lparr>pending := [],
               jobs := [(''j1'', example_job\<lparr>status := Done,
                           outfile_path := Some ''/data/j1/report.pdf'',
                           finished_at := Some 7\<rparr>)]\<rparr>,
             1)"
    by code_simp
  have j3: "get example_registry ''j3'' = Some running_job"
    by (simp add: get_def example_registry_def)
  have j4: "get example_registry ''j4'' = Some cleaned_job"
    by (simp add: get_def example_registry_def)
  have j2: "get example_registry ''j2'' = Some failed_job"
    by (simp add: get_def example_registry_def)
  have j9: "get example_registry ''j9'' = None"
    by (simp add: get_def example_registry_def)
  have kept: "get (evict_old_jobs 50 100 example_registry) ''j2'' = Some failed_job"
    by (simp add: get_def evict_old_jobs_def expired_def example_registry_def done_job_def
        failed_job_def running_job_def cleaned_job_def example_job_def AList.delete_eq)
  show ?thesis
    using enter run j3 j4 j2 j9 kept
      status_transitions [where job = example_job and q = example_queue and runner = ok_runner
        and now = 7 and w = 0 and jid = "''j1''" and jid' = "''j1''" and ttl = 50]
      status_transitions [where job = running_job and q = example_registry and runner = ok_runner
        and now = 100 and w = 0 and jid = "''j3''" and jid' = "''j4''" and ttl = 50]
      status_transitions [where job = cleaned_job and q = example_registry and runner = ok_runner
        and now = 100 and w = 0 and jid = "''j4''" and jid' = "''j3''" and ttl = 50]
      status_transitions [where job = failed_job and q = example_registry and runner = ok_runner
        and now = 100 and w = 0 and jid = "''j9''" and jid' = "''j3''" and ttl = 50]
      status_transitions [where job = failed_job and q = example_registry and runner = ok_runner
        and now = 100 and w = 0 and jid = "''j2''" and jid' = "''j3''" and ttl = 50]
    by simp
qed

section \<open>Admission and the synchronous path on concrete inputs\<close>

text \<open>
  C1 on a full queue (\<open>MAX_QUEUE_SIZE = 1\<close>, one id pending): \<open>convert_async\<close> answers
  \<open>Failed\<close>, \<open>enqueue\<close> has set the status and the message \<open>Queue is full\<close> and has left
  the pending list as it was, but \<open>finished_at\<close> is not set, and the handler has created
  the \<open>run_job\<close> task for the rejected job all the same: the task takes the free slot,
  sets the status to \<open>Running\<close>, runs the conversion and ends with \<open>Done\<close>.
\<close>

theorem rejected_job_still_runs:
  "convert_async ''/data'' 2 1 ''j1'' ''report.odt'' None full_queue =
     (\<lparr> resp_job_id = ''j1'', resp_status = Failed, resp_download_url = None,
         resp_message = None \<rparr>,
      rejected_job, queue_after_rejection, [rejected_job])
   \<and> status rejected_job = Failed
   \<and> message rejected_job = Some ''Queue is full''
   \<and> finished_at rejected_job = None
   \<and> pending queue_after_rejection = pending full_queue
   \<and> get queue_after_rejection ''j1'' = Some rejected_job
   \<and> fst (run_job_enter rejected_job queue_after_rejection) = rejected_job\<lparr>status := Running\<rparr>
   \<and> sem (snd (run_job_enter rejected_job queue_after_rejection)) = 0
   \<and> run_job ok_runner 7 rejected_job queue_after_rejection 0 =
       Some (None,
             rejected_job\<lparr>status := Done, outfile_path := Some ''/data/j1/report.pdf'',
                           finished_at := Some 7\<rparr>,
             full_queue\<lparr>jobs := jobs full_queue @
               [(''j1'', rejected_job\<lparr>status := Done,
                           outfile_path := Some ''/data/j1/report.pdf'',
                           finished_at := Some 7\<rparr>)]\<rparr>,
             1)"
  by code_simp

text \<open>
  C7 on the synchronous path: \<open>convert_sync\<close> leaves the job \<open>Done\<close> after a successful
  conversion, and \<open>Failed\<close> after the retries are exhausted, with \<open>finished_at\<close> unset in
  both cases.
\<close>

theorem sync_path_leaves_finished_at_unset:
  "convert_sync ok_runner ''/data'' 2 ''j1'' ''report.odt'' None empty_queue 0 =
     Some (Inr \<lparr> resp_job_id = ''j1'', resp_status = Done,
                  resp_download_url = Some ''/download/j1'', resp_message = None \<rparr>,
           example_job\<lparr>status := Done, outfile_path := Some ''/data/j1/report.pdf''\<rparr>,
           empty_queue\<lparr>jobs := [(''j1'', example_job\<lparr>status := Done,
                                         outfile_path := Some ''/data/j1/report.pdf''\<rparr>)]\<rparr>,
           1)
   \<and> finished_at (example_job\<lparr>status := Done, outfile_path := Some ''/data/j1/report.pdf''\<rparr>)
       = None
   \<and> convert_sync failing_runner ''/data'' 2 ''j1'' ''report.odt'' None empty_queue 0 =
     Some (Inl (HTTPException 500 ''Conversion failed: Conversion timed out''),
           example_job\<lparr>status := Failed, message := Some ''Conversion timed out'',
                        retries := 2\<rparr>,
           empty_queue\<lparr>jobs := [(''j1'', example_job\<lparr>status := Failed,
                                         message := Some ''Conversion timed out'',
                                         retries := 2\<rparr>)]\<rparr>,
           3)
   \<and> finished_at (example_job\<lparr>status := Failed, message := Some ''Conversion timed out'',
                                retries := 2\<rparr>) = None"
  by code_simp

end
